theory Spec2Isabelle
  imports Main "HOL-Library.Sublist"
begin

section \<open>Data model of the Lift plugin (src/src/plugin.ts)\<close>

text \<open>
  Configuration values are JSON-like trees. A deferred value (the string form of a CDK
  \<open>Lazy.any\<close>) is the leaf \<open>Token n\<close>, where \<open>n\<close> numbers the deferred values in the
  order in which \<open>resolveReference\<close> created them. A JavaScript object is an association
  list in \<open>Object.entries\<close> order.
\<close>

datatype val =
    Null
  | Bool bool
  | Num int
  | Str string
  | Token nat
  | Arr "val list"
  | Obj "(string \<times> val) list"

text \<open>
  Every \<open>throw\<close> of plugin.ts is \<open>new Error(message)\<close>. \<open>ServerlessError\<close> is the host
  tool's class for user-facing configuration errors; \<open>TokenError\<close> stands for the faults of
  the token resolver and \<open>TypeError\<close> for the runtime's own.
\<close>

datatype error =
    Error string
  | ServerlessError string
  | TokenError string
  | TypeError string

text \<open>
  A construct instance with the capabilities the plugin calls. An optional method that a
  construct does not implement is \<open>None\<close>. The hooks \<open>postDeploy\<close> and \<open>preRemove\<close> are
  given by their outcome: \<open>Some None\<close> returns, \<open>Some (Some e)\<close> throws \<open>e\<close>. An output
  is given by what its resolver returns (\<open>None\<close> is \<open>undefined\<close>).
\<close>

record construct =
  references :: "(string \<times> val) list"
  permissions :: "val list option"
  outputs :: "(string \<times> string option) list"
  construct_postDeploy :: "error option option"
  construct_preRemove :: "error option option"

text \<open>A registered construct class: its static \<open>type\<close> and its factory \<open>create\<close>,
  called with the provider's handle (its stack, the scope of the new construct), the
  construct id and the declaration's parameters.\<close>

record construct_class =
  type :: string
  create :: "string \<Rightarrow> string \<Rightarrow> val \<Rightarrow> construct"

text \<open>The provider (\<open>this.providers[0]\<close>; the constructor registers exactly one): the
  classes registered with it, its stack (the scope of token resolution) and the two
  mappings of the template that its stack compiles to.\<close>

record aws_provider =
  classes :: "construct_class list"
  stack :: string
  template_Resources :: "(string \<times> val) list"
  template_Outputs :: "(string \<times> val) list"

text \<open>
  The plugin's state: the \<open>constructs\<close> field (\<open>None\<close> is \<open>undefined\<close>), the provider,
  the \<open>constructs\<close> section of \<open>serverless.configurationInput\<close> (each declaration a type and
  its parameters), the six sections of \<open>serverless.service\<close> that phase 2 walks, and the
  addresses of the deferred values created so far.
\<close>

record plugin =
  constructs :: "(string \<times> construct) list option"
  provider0 :: aws_provider
  constructsInput :: "(string \<times> string \<times> val) list option"
  service_provider :: "val option"
  service_functions :: "val option"
  service_custom :: "val option"
  service_resources :: "val option"
  service_layers :: "val option"
  service_outputs :: "val option"
  tokens :: "string list"

section \<open>JavaScript helpers\<close>

text \<open>Own-key lookup and assignment \<open>obj[k] = v\<close> on an object.\<close>

fun lookup :: "(string \<times> 'a) list \<Rightarrow> string \<Rightarrow> 'a option" where
  "lookup [] k = None"
| "lookup ((k', v) # kvs) k = (if k' = k then Some v else lookup kvs k)"

fun assign :: "(string \<times> 'a) list \<Rightarrow> string \<Rightarrow> 'a \<Rightarrow> (string \<times> 'a) list" where
  "assign [] k v = [(k, v)]"
| "assign ((k', v') # kvs) k v = (if k' = k then (k, v) # kvs else (k', v') # assign kvs k v)"

definition keys :: "(string \<times> 'a) list \<Rightarrow> string list" where
  "keys obj = map fst obj"

text \<open>
  Modelled from the spec: lodash's \<open>has(object, path)\<close>, which is not part of the
  repository. The spec reads it as "is a key of": a reference is valid only if the id
  names an existing construct and the property is a key returned by \<open>references()\<close>.
  The path argument is \<open>None\<close> when it is \<open>undefined\<close>.
\<close>

fun has :: "(string \<times> 'a) list \<Rightarrow> string option \<Rightarrow> bool" where
  "has obj None = False"
| "has obj (Some k) = (lookup obj k \<noteq> None)"

text \<open>\<open>s.split(".")\<close>: the pieces between the separators, never an empty array.\<close>

fun split :: "char \<Rightarrow> string \<Rightarrow> string list" where
  "split c [] = [[]]"
| "split c (x # xs) =
     (if x = c then [] # split c xs
      else (case split c xs of [] \<Rightarrow> [[x]] | p # ps \<Rightarrow> (x # p) # ps))"

text \<open>\<open>xs.join(sep)\<close>.\<close>

fun join :: "string \<Rightarrow> string list \<Rightarrow> string" where
  "join sep [] = []"
| "join sep [x] = x"
| "join sep (x # y # ys) = x @ sep @ join sep (y # ys)"

text \<open>A value interpolated into a template literal: \<open>undefined\<close> prints as itself.\<close>

fun interpolate :: "string option \<Rightarrow> string" where
  "interpolate None = ''undefined''"
| "interpolate (Some s) = s"

section \<open>Construct instantiation\<close>

text \<open>\<open>getAllConstructClasses\<close>: the classes of every provider, flattened.\<close>

definition getAllConstructClasses :: "plugin \<Rightarrow> construct_class list" where
  "getAllConstructClasses p = concat (map classes [provider0 p])"

text \<open>\<open>getConstructClass\<close>: the first class whose type is the one asked for.\<close>

definition getConstructClass :: "plugin \<Rightarrow> string \<Rightarrow> error + construct_class" where
  "getConstructClass p constructType =
     (case find (\<lambda>constructClass. type constructClass = constructType) (getAllConstructClasses p) of
        None \<Rightarrow> Inl (Error (''Unknown construct type '' @ constructType))
      | Some match \<Rightarrow> Inr match)"

text \<open>\<open>get(this.serverless.configurationInput, "constructs", {})\<close>.\<close>

definition declarations :: "plugin \<Rightarrow> (string \<times> string \<times> val) list" where
  "declarations p = (case constructsInput p of None \<Rightarrow> [] | Some ds \<Rightarrow> ds)"

text \<open>
  Modelled from the spec: \<open>AwsProvider.create(type, id)\<close>; classes/AwsProvider.ts is not
  among the sources. The spec (4.3): for each declaration, resolve the type to a class via
  the registry (fails with the unknown-type error if absent), then construct an instance
  passing the construct id, the type-specific parameters, and a handle to the provider
  context. The plugin passes only the type and the id, so the parameters are those of the
  declaration with that id.
\<close>

definition parameters :: "plugin \<Rightarrow> string \<Rightarrow> val" where
  "parameters p i =
     (case lookup (declarations p) i of
        None \<Rightarrow> Obj []
      | Some (t, ps) \<Rightarrow> ps)"

text \<open>Modelled from the spec: \<open>AwsProvider.create\<close> itself, as described above; the
  unknown-type failure is the one of \<open>getConstructClass\<close>.\<close>

definition provider_create :: "plugin \<Rightarrow> string \<Rightarrow> string \<Rightarrow> error + construct" where
  "provider_create p t i =
     (case getConstructClass p t of
        Inl e \<Rightarrow> Inl e
      | Inr c \<Rightarrow> Inr (create c (stack (provider0 p)) i (parameters p i)))"

text \<open>
  The loop of \<open>loadConstructs\<close> over \<open>Object.entries(constructsInputConfiguration)\<close>. A
  throw of \<open>provider.create\<close> leaves the constructs stored so far in place.
\<close>

fun loadEntries :: "plugin \<Rightarrow> (string \<times> string \<times> val) list \<Rightarrow> error option \<times> plugin" where
  "loadEntries p [] = (None, p)"
| "loadEntries p ((i, t, ps) # rest) =
     (case provider_create p t i of
        Inl e \<Rightarrow> (Some e, p)
      | Inr c \<Rightarrow>
          (case constructs p of
             None \<Rightarrow> (Some (TypeError ''Cannot set properties of undefined''), p)
           | Some cs \<Rightarrow> loadEntries (p\<lparr>constructs := Some (assign cs i c)\<rparr>) rest))"

definition loadConstructs :: "plugin \<Rightarrow> error option \<times> plugin" where
  "loadConstructs p =
     (if constructs p \<noteq> None
      then (Some (Error ''Constructs are already initialized: this should not happen''), p)
      else loadEntries (p\<lparr>constructs := Some []\<rparr>) (declarations p))"

definition getConstructs :: "plugin \<Rightarrow> error + (string \<times> construct) list" where
  "getConstructs p =
     (case constructs p of
        None \<Rightarrow> Inl (Error ''Constructs are not initialized: this should not happen'')
      | Some cs \<Rightarrow> Inr cs)"

section \<open>Deferred references, phase 1\<close>

text \<open>\<open>const [id, property] = parts\<close>: a missing element is \<open>undefined\<close>.\<close>

fun destructure :: "string list \<Rightarrow> string option \<times> string option" where
  "destructure [] = (None, None)"
| "destructure [a] = (Some a, None)"
| "destructure (a # b # rest) = (Some a, Some b)"

definition apostrophe :: string where
  "apostrophe = [CHR 0x27]"

text \<open>The two template literals of \<open>produce\<close>.\<close>

definition noConstructMessage :: "string option \<Rightarrow> string option \<Rightarrow> string" where
  "noConstructMessage i property =
     ''No construct named '' @ apostrophe @ interpolate i @ apostrophe
     @ '' was found, the ${construct:'' @ interpolate i @ ''.'' @ interpolate property
     @ ''} variable is invalid.''"

definition noPropertyMessage :: "string option \<Rightarrow> string option \<Rightarrow> string list \<Rightarrow> string" where
  "noPropertyMessage i property names =
     ''${construct:'' @ interpolate i @ ''.'' @ interpolate property
     @ ''} does not exist. Properties available on ${construct:'' @ interpolate i
     @ ''} are: '' @ join '', '' names @ ''.''"

text \<open>
  The \<open>produce\<close> callback of the deferred value that \<open>resolveReference\<close> returns for
  \<open>address\<close>: what forcing it computes in the plugin state \<open>p\<close>. The result is
  \<open>properties[property]\<close>.
\<close>

definition produce :: "plugin \<Rightarrow> string \<Rightarrow> error + val option" where
  "produce p address =
     (case getConstructs p of
        Inl e \<Rightarrow> Inl e
      | Inr cs \<Rightarrow>
          (case destructure (take 2 (split CHR ''.'' address)) of
             (i, property) \<Rightarrow>
               if \<not> has cs i
               then Inl (Error (noConstructMessage i property))
               else
                 (case lookup cs (interpolate i) of
                    None \<Rightarrow> Inl (TypeError ''Cannot read properties of undefined'')
                  | Some c \<Rightarrow>
                      (let properties = references c in
                       if \<not> has properties property
                       then Inl (Error (noPropertyMessage i property (keys properties)))
                       else Inr (lookup properties (interpolate property))))))"

text \<open>The part of a string before the first \<open>c\<close> (all of it if there is none), and the
  part after the first \<open>c\<close>.\<close>

definition before :: "char \<Rightarrow> string \<Rightarrow> string" where
  "before c s = takeWhile (\<lambda>x. x \<noteq> c) s"

definition after :: "char \<Rightarrow> string \<Rightarrow> string" where
  "after c s = tl (dropWhile (\<lambda>x. x \<noteq> c) s)"

text \<open>
  \<open>resolveReference\<close> creates a new deferred value for the address and returns its token;
  nothing is forced yet.
\<close>

definition resolveReference :: "plugin \<Rightarrow> string \<Rightarrow> val \<times> plugin" where
  "resolveReference p address = (Token (length (tokens p)), p\<lparr>tokens := tokens p @ [address]\<rparr>)"

section \<open>Reads of the constructs\<close>

fun outputLines :: "(string \<times> string option) list \<Rightarrow> string list" where
  "outputLines [] = []"
| "outputLines ((name, None) # rest) = outputLines rest"
| "outputLines ((name, Some output) # rest) = (''  '' @ name @ '': '' @ output) # outputLines rest"

text \<open>\<open>info\<close>: the lines it prints.\<close>

definition info :: "plugin \<Rightarrow> error + string list" where
  "info p =
     (case getConstructs p of
        Inl e \<Rightarrow> Inl e
      | Inr cs \<Rightarrow>
          Inr (concat (map (\<lambda>(i, c).
                 if length (keys (outputs c)) > 0
                 then (i @ '':'') # outputLines (outputs c)
                 else []) cs)))"

text \<open>The hooks of the constructs, in order, up to the first that throws.\<close>

fun runHooks :: "error option option list \<Rightarrow> error option" where
  "runHooks [] = None"
| "runHooks (None # rest) = runHooks rest"
| "runHooks (Some None # rest) = runHooks rest"
| "runHooks (Some (Some e) # rest) = Some e"

definition postDeploy :: "plugin \<Rightarrow> error option" where
  "postDeploy p =
     (case getConstructs p of
        Inl e \<Rightarrow> Some e
      | Inr cs \<Rightarrow> runHooks (map (\<lambda>(i, c). construct_postDeploy c) cs))"

definition preRemove :: "plugin \<Rightarrow> error option" where
  "preRemove p =
     (case getConstructs p of
        Inl e \<Rightarrow> Some e
      | Inr cs \<Rightarrow> runHooks (map (\<lambda>(i, c). construct_preRemove c) cs))"

text \<open>
  The hook that \<open>registerCommands\<close> installs for a command of the construct \<open>i\<close>: the
  handler is called on \<open>this.getConstructs()[i]\<close>.
\<close>

definition commandHook :: "plugin \<Rightarrow> string \<Rightarrow> (construct option \<Rightarrow> error option) \<Rightarrow> error option" where
  "commandHook p i handler =
     (case getConstructs p of
        Inl e \<Rightarrow> Some e
      | Inr cs \<Rightarrow> handler (lookup cs i))"

section \<open>Permission aggregation\<close>

definition statementsOf :: "(string \<times> construct) list \<Rightarrow> val list" where
  "statementsOf cs =
     concat (map (\<lambda>(i, c). case permissions c of None \<Rightarrow> [] | Some ps \<Rightarrow> ps) cs)"

text \<open>
  \<open>appendPermissions\<close>. \<open>iamRoleStatements\<close> is a key of the \<open>service.provider\<close> object;
  \<open>x ?? []\<close> replaces an absent or null value by the empty array.
\<close>

definition appendPermissions :: "plugin \<Rightarrow> error option \<times> plugin" where
  "appendPermissions p =
     (case getConstructs p of
        Inl e \<Rightarrow> (Some e, p)
      | Inr cs \<Rightarrow>
          (let statements = statementsOf cs in
           if length statements = 0 then (None, p)
           else
             (case service_provider p of
                Some (Obj fs) \<Rightarrow>
                  (case (case lookup fs ''iamRoleStatements'' of
                           None \<Rightarrow> Arr [] | Some Null \<Rightarrow> Arr [] | Some v \<Rightarrow> v) of
                     Arr xs \<Rightarrow>
                       (None, p\<lparr>service_provider :=
                          Some (Obj (assign fs ''iamRoleStatements'' (Arr (xs @ statements))))\<rparr>)
                   | _ \<Rightarrow> (Some (TypeError ''iamRoleStatements.push is not a function''), p))
              | _ \<Rightarrow> (Some (TypeError ''Cannot read properties of undefined''), p))))"

section \<open>Deferred references, phase 2\<close>

text \<open>Forcing the deferred value behind a token: its \<open>produce\<close> callback runs in the
  current state. A string that names no deferred value is a fault of the resolver.\<close>

definition force :: "plugin \<Rightarrow> nat \<Rightarrow> error + val option" where
  "force p n =
     (if n < length (tokens p) then produce p (tokens p ! n)
      else Inl (TokenError ''Unrecognized token key''))"

text \<open>
  Modelled from the spec: \<open>Tokenization.resolve\<close> of the CDK, which is not part of the
  repository. The spec (4.4, phase 2): walk the tree and replace each deferred-value token
  with its forced value, recursively, so that nested deferred values are fully flattened
  before the walk completes. \<open>fuel\<close> bounds the nesting of deferred values inside forced
  values; a chain that exceeds it is reported as circular. A forced value that is
  \<open>undefined\<close> is read as null.
\<close>

fun resolve :: "nat \<Rightarrow> plugin \<Rightarrow> val \<Rightarrow> error + val"
  and resolveAll :: "nat \<Rightarrow> plugin \<Rightarrow> val list \<Rightarrow> error + val list"
  and resolveFields :: "nat \<Rightarrow> plugin \<Rightarrow> (string \<times> val) list \<Rightarrow> error + (string \<times> val) list"
where
  "resolve fuel p Null = Inr Null"
| "resolve fuel p (Bool b) = Inr (Bool b)"
| "resolve fuel p (Num n) = Inr (Num n)"
| "resolve fuel p (Str s) = Inr (Str s)"
| "resolve fuel p (Token n) =
     (case fuel of
        0 \<Rightarrow> Inl (TokenError ''Unable to resolve object tree with circular reference'')
      | Suc f \<Rightarrow>
          (case force p n of
             Inl e \<Rightarrow> Inl e
           | Inr None \<Rightarrow> Inr Null
           | Inr (Some v) \<Rightarrow> resolve f p v))"
| "resolve fuel p (Arr vs) =
     (case resolveAll fuel p vs of Inl e \<Rightarrow> Inl e | Inr ws \<Rightarrow> Inr (Arr ws))"
| "resolve fuel p (Obj fs) =
     (case resolveFields fuel p fs of Inl e \<Rightarrow> Inl e | Inr gs \<Rightarrow> Inr (Obj gs))"
| "resolveAll fuel p [] = Inr []"
| "resolveAll fuel p (v # vs) =
     (case resolve fuel p v of
        Inl e \<Rightarrow> Inl e
      | Inr w \<Rightarrow> (case resolveAll fuel p vs of Inl e \<Rightarrow> Inl e | Inr ws \<Rightarrow> Inr (w # ws)))"
| "resolveFields fuel p [] = Inr []"
| "resolveFields fuel p ((k, v) # fs) =
     (case resolve fuel p v of
        Inl e \<Rightarrow> Inl e
      | Inr w \<Rightarrow>
          (case resolveFields fuel p fs of Inl e \<Rightarrow> Inl e | Inr gs \<Rightarrow> Inr ((k, w) # gs)))"

text \<open>\<open>resolveTokens\<close>, the local function of \<open>resolveLazyVariables\<close>.\<close>

definition resolveTokens :: "nat \<Rightarrow> plugin \<Rightarrow> val option \<Rightarrow> error + val option" where
  "resolveTokens fuel p input =
     (case input of
        None \<Rightarrow> Inr None
      | Some v \<Rightarrow> (case resolve fuel p v of Inl e \<Rightarrow> Inl e | Inr w \<Rightarrow> Inr (Some w)))"

text \<open>\<open>resolveLazyVariables\<close>: the six sections in the order of the source; a throw keeps
  the sections already assigned.\<close>

definition resolveLazyVariables :: "nat \<Rightarrow> plugin \<Rightarrow> error option \<times> plugin" where
  "resolveLazyVariables fuel p =
     (case resolveTokens fuel p (service_provider p) of
        Inl e \<Rightarrow> (Some e, p)
      | Inr v1 \<Rightarrow>
     (let p1 = p\<lparr>service_provider := v1\<rparr> in
      case resolveTokens fuel p1 (service_functions p1) of
        Inl e \<Rightarrow> (Some e, p1)
      | Inr v2 \<Rightarrow>
     (let p2 = p1\<lparr>service_functions := v2\<rparr> in
      case resolveTokens fuel p2 (service_custom p2) of
        Inl e \<Rightarrow> (Some e, p2)
      | Inr v3 \<Rightarrow>
     (let p3 = p2\<lparr>service_custom := v3\<rparr> in
      case resolveTokens fuel p3 (service_resources p3) of
        Inl e \<Rightarrow> (Some e, p3)
      | Inr v4 \<Rightarrow>
     (let p4 = p3\<lparr>service_resources := v4\<rparr> in
      case resolveTokens fuel p4 (service_layers p4) of
        Inl e \<Rightarrow> (Some e, p4)
      | Inr v5 \<Rightarrow>
     (let p5 = p4\<lparr>service_layers := v5\<rparr> in
      case resolveTokens fuel p5 (service_outputs p5) of
        Inl e \<Rightarrow> (Some e, p5)
      | Inr v6 \<Rightarrow> (None, p5\<lparr>service_outputs := v6\<rparr>)))))))"

text \<open>A tree with no deferred-value token in it.\<close>

fun tokenFree :: "val \<Rightarrow> bool" where
  "tokenFree (Token n) = False"
| "tokenFree (Arr vs) = list_all tokenFree vs"
| "tokenFree (Obj fs) = list_all (\<lambda>f. tokenFree (snd f)) fs"
| "tokenFree v = True"

section \<open>Lifecycle hooks\<close>

text \<open>\<open>Object.assign(target, source)\<close> and \<open>x ?? {}\<close> on an object-valued key.\<close>

fun objectAssign :: "(string \<times> val) list \<Rightarrow> (string \<times> val) list \<Rightarrow> (string \<times> val) list" where
  "objectAssign target [] = target"
| "objectAssign target ((k, v) # source) = objectAssign (assign target k v) source"

definition fieldsOr :: "val option \<Rightarrow> (string \<times> val) list" where
  "fieldsOr v = (case v of Some (Obj fs) \<Rightarrow> fs | _ \<Rightarrow> [])"

text \<open>
  Modelled from the spec: \<open>AwsProvider.appendCloudformationResources\<close>;
  classes/AwsProvider.ts is not among the sources. The spec (4.5, package): merge the
  compiled fragment into the deployment's \<open>Resources\<close> and \<open>Outputs\<close> maps, last write
  wins.
\<close>

definition appendCloudformationResources :: "plugin \<Rightarrow> plugin" where
  "appendCloudformationResources p =
     (let resources = fieldsOr (service_resources p);
          rs = objectAssign (fieldsOr (lookup resources ''Resources''))
                 (template_Resources (provider0 p));
          os = objectAssign (fieldsOr (lookup resources ''Outputs''))
                 (template_Outputs (provider0 p))
      in p\<lparr>service_resources :=
           Some (Obj (assign (assign resources ''Resources'' (Obj rs)) ''Outputs'' (Obj os)))\<rparr>)"

text \<open>
  The methods that the hooks of the constructor call, as phases of a run, and the hook
  table \<open>this.hooks\<close>. The host fires hooks by name, one after the other; the first throw
  aborts the run. \<open>eject\<close> asks the host for a package run and prints the template that the
  host wrote; it changes nothing in the plugin.
\<close>

datatype phase =
    LoadConstructs
  | AppendPermissions
  | ResolveLazyVariables
  | AppendCloudformationResources
  | Info
  | PostDeploy
  | PreRemove
  | Eject

definition hooks :: "string \<Rightarrow> phase list" where
  "hooks name =
     (if name = ''initialize'' then [LoadConstructs, AppendPermissions, ResolveLazyVariables]
      else if name = ''before:aws:info:displayStackOutputs'' then [Info]
      else if name = ''after:package:compileEvents'' then [AppendCloudformationResources]
      else if name = ''after:deploy:deploy'' then [PostDeploy]
      else if name = ''before:remove:remove'' then [PreRemove]
      else if name = ''lift:eject:eject'' then [Eject]
      else [])"

fun runPhase :: "nat \<Rightarrow> phase \<Rightarrow> plugin \<Rightarrow> error option \<times> plugin" where
  "runPhase fuel LoadConstructs p = loadConstructs p"
| "runPhase fuel AppendPermissions p = appendPermissions p"
| "runPhase fuel ResolveLazyVariables p = resolveLazyVariables fuel p"
| "runPhase fuel AppendCloudformationResources p = (None, appendCloudformationResources p)"
| "runPhase fuel Info p = (case info p of Inl e \<Rightarrow> (Some e, p) | Inr printed \<Rightarrow> (None, p))"
| "runPhase fuel PostDeploy p = (postDeploy p, p)"
| "runPhase fuel PreRemove p = (preRemove p, p)"
| "runPhase fuel Eject p = (None, p)"

text \<open>The phases that a run started, in order, with its outcome and final state.\<close>

fun runPhases :: "nat \<Rightarrow> phase list \<Rightarrow> plugin \<Rightarrow> phase list \<times> error option \<times> plugin" where
  "runPhases fuel [] p = ([], None, p)"
| "runPhases fuel (ph # phs) p =
     (case runPhase fuel ph p of
        (Some e, p') \<Rightarrow> ([ph], Some e, p')
      | (None, p') \<Rightarrow>
          (case runPhases fuel phs p' of (tr, r, p'') \<Rightarrow> (ph # tr, r, p'')))"

definition run :: "nat \<Rightarrow> string list \<Rightarrow> plugin \<Rightarrow> phase list \<times> error option \<times> plugin" where
  "run fuel names p = runPhases fuel (concat (map hooks names)) p"

section \<open>A small deployment\<close>

text \<open>
  One registered class, \<open>storage\<close>, whose instances follow constructs/Storage.ts: two
  references, one permission statement on the bucket and its sub-path, one output.
\<close>

definition storage :: construct_class where
  "storage = \<lparr>type = ''storage'',
     create = (\<lambda>handle i ps. \<lparr>
       references = [(''bucketArn'', Obj [(''Fn::GetAtt'', Arr [Str (i @ ''Bucket''), Str ''Arn''])]),
                     (''bucketName'', Obj [(''Ref'', Str (i @ ''Bucket''))])],
       permissions = Some [Obj [(''Effect'', Str ''Allow''),
         (''Action'', Arr [Str ''s3:PutObject'', Str ''s3:GetObject'', Str ''s3:DeleteObject'',
                           Str ''s3:ListBucket'']),
         (''Resource'', Arr [Obj [(''Fn::GetAtt'', Arr [Str (i @ ''Bucket''), Str ''Arn''])],
            Obj [(''Fn::Join'', Arr [Str ''/'',
              Arr [Obj [(''Fn::GetAtt'', Arr [Str (i @ ''Bucket''), Str ''Arn''])], Str ''*'']])]])]],
       outputs = [(''bucketName'', Some (i @ ''-bucket''))],
       construct_postDeploy = None,
       construct_preRemove = None\<rparr>)\<rparr>"

definition example :: plugin where
  "example = \<lparr>constructs = None,
     provider0 = \<lparr>classes = [storage], stack = ''app-dev'',
       template_Resources = [], template_Outputs = []\<rparr>,
     constructsInput = Some [(''avatars'', ''storage'', Obj [(''type'', Str ''storage'')])],
     service_provider = Some (Obj [(''name'', Str ''aws'')]),
     service_functions = Some (Obj [(''resize'', Obj [(''environment'',
        Obj [(''BUCKET'', Token 0)])])]),
     service_custom = None,
     service_resources = None,
     service_layers = None,
     service_outputs = None,
     tokens = [''avatars.bucketName'']\<rparr>"

text \<open>The example after a successful \<open>loadConstructs\<close>.\<close>

definition deployed :: plugin where
  "deployed = snd (loadConstructs example)"

text \<open>The six sections that \<open>resolveLazyVariables\<close> assigns, and a section that is
  \<open>undefined\<close> or free of tokens.\<close>

definition sections :: "plugin \<Rightarrow> val option list" where
  "sections p = [service_provider p, service_functions p, service_custom p,
     service_resources p, service_layers p, service_outputs p]"

fun sectionTokenFree :: "val option \<Rightarrow> bool" where
  "sectionTokenFree None = True"
| "sectionTokenFree (Some v) = tokenFree v"

text \<open>The statement list of the deployment role, empty while the key is absent.\<close>

definition iamRoleStatements :: "plugin \<Rightarrow> val list" where
  "iamRoleStatements p =
     (case service_provider p of
        Some (Obj fs) \<Rightarrow> (case lookup fs ''iamRoleStatements'' of Some (Arr xs) \<Rightarrow> xs | _ \<Rightarrow> [])
      | _ \<Rightarrow> [])"

text \<open>The entry \<open>e\<close> of the constructs mapping is the instance of the declaration
  \<open>d\<close>: keyed by its id and made by the factory of the class registered for its type, from
  the provider's handle, the id and the declaration's parameters.\<close>

definition instantiated :: "plugin \<Rightarrow> string \<times> string \<times> val \<Rightarrow> string \<times> construct \<Rightarrow> bool" where
  "instantiated p d e =
     (case d of (i, t, ps) \<Rightarrow>
        fst e = i \<and>
        (case getConstructClass p t of
           Inl err \<Rightarrow> False
         | Inr c \<Rightarrow> type c = t \<and> snd e = create c (stack (provider0 p)) i ps))"

text \<open>The deployed example with a statement already on the role.\<close>

definition withRole :: plugin where
  "withRole = deployed\<lparr>service_provider :=
     Some (Obj [(''name'', Str ''aws''),
       (''iamRoleStatements'', Arr [Obj [(''Effect'', Str ''Allow''),
          (''Action'', Str ''sqs:SendMessage''), (''Resource'', Str ''*'')]])])\<rparr>"

section \<open>Verified properties\<close>

subsection \<open>Single initialization\<close>

lemma loadEntries_initialized:
  "constructs p \<noteq> None \<Longrightarrow> constructs (snd (loadEntries p ds)) \<noteq> None"
  by (induction p ds rule: loadEntries.induct) (auto split: sum.splits option.splits)

lemma loadConstructs_initialized: "constructs (snd (loadConstructs p)) \<noteq> None"
proof (cases "constructs p")
  case None
  have "constructs (p\<lparr>constructs := Some []\<rparr>) \<noteq> None" by simp
  from loadEntries_initialized [OF this] None show ?thesis
    by (simp add: loadConstructs_def)
next
  case (Some cs)
  then show ?thesis by (simp add: loadConstructs_def)
qed

text \<open>
  C3. Whatever state \<open>p\<close> a first call of \<open>loadConstructs\<close> started from and however it
  ended, a second call in the state it left fails with the already-initialized error and
  changes nothing, whatever declarations \<open>ds\<close> the configuration holds by then.
\<close>

theorem loadConstructs_twice:
  "loadConstructs (snd (loadConstructs p)\<lparr>constructsInput := ds\<rparr>)
     = (Some (Error ''Constructs are already initialized: this should not happen''),
        snd (loadConstructs p)\<lparr>constructsInput := ds\<rparr>)"
  using loadConstructs_initialized [of p] by (simp add: loadConstructs_def)

subsection \<open>Reads before initialization\<close>

text \<open>
  C4. While \<open>constructs\<close> is undefined, every read of it fails with the not-initialized
  error: \<open>getConstructs\<close> itself, forcing a deferred reference (\<open>produce\<close>, and so the
  resolution of a token that \<open>resolveReference\<close> returned), \<open>appendPermissions\<close>, \<open>info\<close>,
  \<open>postDeploy\<close>, \<open>preRemove\<close> and a delegated command. None returns a mapping.
\<close>

theorem reads_before_loadConstructs:
  "getConstructs (p\<lparr>constructs := None\<rparr>)
      = Inl (Error ''Constructs are not initialized: this should not happen'')
   \<and> produce (p\<lparr>constructs := None\<rparr>) address
      = Inl (Error ''Constructs are not initialized: this should not happen'')
   \<and> resolve (Suc fuel) (snd (resolveReference (p\<lparr>constructs := None\<rparr>) address))
        (fst (resolveReference (p\<lparr>constructs := None\<rparr>) address))
      = Inl (Error ''Constructs are not initialized: this should not happen'')
   \<and> appendPermissions (p\<lparr>constructs := None\<rparr>)
      = (Some (Error ''Constructs are not initialized: this should not happen''),
         p\<lparr>constructs := None\<rparr>)
   \<and> info (p\<lparr>constructs := None\<rparr>)
      = Inl (Error ''Constructs are not initialized: this should not happen'')
   \<and> postDeploy (p\<lparr>constructs := None\<rparr>)
      = Some (Error ''Constructs are not initialized: this should not happen'')
   \<and> preRemove (p\<lparr>constructs := None\<rparr>)
      = Some (Error ''Constructs are not initialized: this should not happen'')
   \<and> commandHook (p\<lparr>constructs := None\<rparr>) i handler
      = Some (Error ''Constructs are not initialized: this should not happen'')"
  by (simp add: getConstructs_def produce_def appendPermissions_def info_def
      postDeploy_def preRemove_def commandHook_def resolveReference_def force_def)

subsection \<open>Parsing a reference address\<close>









subsection \<open>Forcing a deferred reference\<close>









subsection \<open>The token resolver\<close>

lemma resolve_tokenFree_id:
  "tokenFree t \<Longrightarrow> resolve fuel p t = Inr t"
  "list_all tokenFree ts \<Longrightarrow> resolveAll fuel p ts = Inr ts"
  "list_all (\<lambda>f. tokenFree (snd f)) fs \<Longrightarrow> resolveFields fuel p fs = Inr fs"
  by (induction fuel p t and fuel p ts and fuel p fs
      rule: resolve_resolveAll_resolveFields.induct) simp_all

lemma resolve_flattens:
  "resolve fuel p t = Inr t' \<Longrightarrow> tokenFree t'"
  "resolveAll fuel p ts = Inr ts' \<Longrightarrow> list_all tokenFree ts'"
  "resolveFields fuel p fs = Inr fs' \<Longrightarrow> list_all (\<lambda>f. tokenFree (snd f)) fs'"
  by (induction fuel p t and fuel p ts and fuel p fs arbitrary: t' and ts' and fs'
      rule: resolve_resolveAll_resolveFields.induct)
     (auto split: sum.splits nat.splits option.splits)

subsection \<open>Unknown references\<close>


lemma example_loaded:
  "loadConstructs example
     = (None, example\<lparr>constructs :=
          Some [(''avatars'', create storage ''app-dev'' ''avatars'' (Obj [(''type'', Str ''storage'')]))]\<rparr>)"
  by (simp add: loadConstructs_def example_def provider_create_def getConstructClass_def
      getAllConstructClasses_def parameters_def declarations_def storage_def)

lemma deployed_constructs:
  "constructs deployed
     = Some [(''avatars'', create storage ''app-dev'' ''avatars'' (Obj [(''type'', Str ''storage'')]))]"
  by (simp add: deployed_def example_loaded)



subsection \<open>What \<open>produce\<close> reads off an address\<close>




subsection \<open>Phase 2 on references and on token-free trees\<close>



lemma resolveTokens_tokenFree_id:
  "sectionTokenFree s \<Longrightarrow> resolveTokens fuel p s = Inr s"
  by (cases s) (simp_all add: resolveTokens_def resolve_tokenFree_id(1))

lemma resolveLazyVariables_tokenFree_id:
  assumes "list_all sectionTokenFree (sections p)"
  shows "resolveLazyVariables fuel p = (None, p)"
  using assms
  by (simp add: resolveLazyVariables_def sections_def Let_def resolveTokens_tokenFree_id)



lemma force_same:
  "constructs q = constructs p \<Longrightarrow> tokens q = tokens p \<Longrightarrow> force q n = force p n"
  by (simp add: force_def produce_def getConstructs_def)

lemma resolve_same:
  assumes "constructs q = constructs p" and "tokens q = tokens p"
  shows "resolve fuel p t = resolve fuel q t"
    and "resolveAll fuel p ts = resolveAll fuel q ts"
    and "resolveFields fuel p fs = resolveFields fuel q fs"
  using assms
  by (induction fuel p t and fuel p ts and fuel p fs
      rule: resolve_resolveAll_resolveFields.induct)
     (simp_all add: force_same [of q] split: nat.splits sum.splits option.splits)

lemma resolve_sections [simp]:
  "resolve fuel (p\<lparr>service_provider := s\<rparr>) t = resolve fuel p t"
  "resolve fuel (p\<lparr>service_functions := s\<rparr>) t = resolve fuel p t"
  "resolve fuel (p\<lparr>service_custom := s\<rparr>) t = resolve fuel p t"
  "resolve fuel (p\<lparr>service_resources := s\<rparr>) t = resolve fuel p t"
  "resolve fuel (p\<lparr>service_layers := s\<rparr>) t = resolve fuel p t"
  "resolve fuel (p\<lparr>service_outputs := s\<rparr>) t = resolve fuel p t"
  by (rule resolve_same(1) [symmetric]; simp)+

lemma tokens_deployed: "tokens deployed = [''avatars.bucketName'']"
  by (simp add: deployed_def example_loaded) (simp add: example_def)

lemma deployed_token:
  "resolve (Suc 0) deployed (Token 0) = Inr (Obj [(''Ref'', Str ''avatarsBucket'')])"
  by (simp add: force_def tokens_deployed produce_def getConstructs_def deployed_constructs
      storage_def numeral_2_eq_2)



text \<open>
  C8. Phase 2 returns a tree that holds no token as it is, with any fuel; it returns an
  undefined or token-free section as it is; \<open>resolveLazyVariables\<close> leaves a plugin whose
  six sections hold no token unchanged, without throwing; and resolving the result of a
  resolution again returns it unchanged.
\<close>

theorem token_free_unchanged:
  "(tokenFree t \<longrightarrow> resolve fuel p t = Inr t)
   \<and> (sectionTokenFree s \<longrightarrow> resolveTokens fuel p s = Inr s)
   \<and> (list_all sectionTokenFree (sections p) \<longrightarrow> resolveLazyVariables fuel p = (None, p))
   \<and> (resolve fuel p t = Inr t' \<longrightarrow> resolve fuel' p' t' = Inr t')"
  using resolve_tokenFree_id(1) resolveTokens_tokenFree_id resolveLazyVariables_tokenFree_id
    resolve_flattens(1) by blast

theorem token_free_unchanged_witness:
  "resolve 0 deployed (Obj [(''name'', Str ''aws''), (''runtimes'', Arr [Str ''nodejs14.x'', Null])])
     = Inr (Obj [(''name'', Str ''aws''), (''runtimes'', Arr [Str ''nodejs14.x'', Null])])
   \<and> resolveTokens 0 deployed None = Inr None
   \<and> resolveLazyVariables 0 (deployed\<lparr>service_functions := None\<rparr>)
       = (None, deployed\<lparr>service_functions := None\<rparr>)
   \<and> resolve 5 deployed (Obj [(''Ref'', Str ''avatarsBucket'')])
       = Inr (Obj [(''Ref'', Str ''avatarsBucket'')])"
proof -
  have s: "list_all sectionTokenFree (sections (deployed\<lparr>service_functions := None\<rparr>))"
    by (simp add: sections_def deployed_def example_loaded) (simp add: example_def)
  have "resolve 0 deployed (Obj [(''name'', Str ''aws''), (''runtimes'', Arr [Str ''nodejs14.x'', Null])])
     = Inr (Obj [(''name'', Str ''aws''), (''runtimes'', Arr [Str ''nodejs14.x'', Null])])"
    using token_free_unchanged
      [of "Obj [(''name'', Str ''aws''), (''runtimes'', Arr [Str ''nodejs14.x'', Null])]" 0 deployed]
    by simp
  moreover have "resolveTokens 0 deployed None = Inr None"
    using token_free_unchanged [of _ 0 deployed None] by simp
  moreover have "resolveLazyVariables 0 (deployed\<lparr>service_functions := None\<rparr>)
       = (None, deployed\<lparr>service_functions := None\<rparr>)"
    using token_free_unchanged [of _ 0 "deployed\<lparr>service_functions := None\<rparr>"] s by simp
  moreover have "resolve 5 deployed (Obj [(''Ref'', Str ''avatarsBucket'')])
       = Inr (Obj [(''Ref'', Str ''avatarsBucket'')])"
    using token_free_unchanged [of "Token 0" "Suc 0" deployed _ "Obj [(''Ref'', Str ''avatarsBucket'')]" 5 deployed]
      deployed_token by simp
  ultimately show ?thesis by simp
qed

subsection \<open>One instance per declaration\<close>

lemma assign_new: "k \<notin> set (keys acc) \<Longrightarrow> assign acc k v = acc @ [(k, v)]"
  by (induction acc) (auto simp: keys_def)

lemma lookup_assign: "lookup (assign fs k v) k = Some v"
  by (induction fs) auto


lemma getConstructClass_constructs [simp]:
  "getConstructClass (p\<lparr>constructs := x\<rparr>) t = getConstructClass p t"
  by (simp add: getConstructClass_def getAllConstructClasses_def)

lemma parameters_constructs [simp]:
  "parameters (p\<lparr>constructs := x\<rparr>) i = parameters p i"
  by (simp add: parameters_def declarations_def)


lemma instantiated_constructs [simp]:
  "instantiated (p\<lparr>constructs := x\<rparr>) d e = instantiated p d e"
  by (cases d) (simp add: instantiated_def split: sum.splits)







subsection \<open>Permission aggregation\<close>

lemma loadEntries_keys:
  assumes "loadEntries p ds = (None, p')" and "constructs p = Some acc"
    and "distinct (keys acc @ map fst ds)"
  shows "\<exists>cs. constructs p' = Some cs \<and> keys cs = keys acc @ map fst ds"
  using assms
proof (induction ds arbitrary: p acc)
  case Nil
  then show ?case by simp
next
  case (Cons d ds)
  obtain i t ps where d: "d = (i, t, ps)" by (cases d)
  from Cons.prems(1,2) d obtain c
    where c: "provider_create p t i = Inr c"
      and rest: "loadEntries (p\<lparr>constructs := Some (assign acc i c)\<rparr>) ds = (None, p')"
    by (auto split: sum.splits)
  from Cons.prems(3) d have "i \<notin> set (keys acc)" by auto
  then have a: "assign acc i c = acc @ [(i, c)]" by (rule assign_new)
  have "\<exists>cs. constructs p' = Some cs \<and> keys cs = keys (acc @ [(i, c)]) @ map fst ds"
  proof (rule Cons.IH)
    show "loadEntries (p\<lparr>constructs := Some (acc @ [(i, c)])\<rparr>) ds = (None, p')"
      using rest a by simp
    show "constructs (p\<lparr>constructs := Some (acc @ [(i, c)])\<rparr>) = Some (acc @ [(i, c)])"
      by simp
    show "distinct (keys (acc @ [(i, c)]) @ map fst ds)"
      using Cons.prems(3) d by (auto simp: keys_def)
  qed
  then show ?case by (simp add: d keys_def)
qed

lemma loadConstructs_keys:
  assumes "constructs p0 = None" and "distinct (map fst (declarations p0))"
    and "loadConstructs p0 = (None, p)"
  shows "\<exists>cs. constructs p = Some cs \<and> keys cs = map fst (declarations p0)"
proof -
  have "loadEntries (p0\<lparr>constructs := Some []\<rparr>) (declarations p0) = (None, p)"
    using assms(1,3) by (simp add: loadConstructs_def)
  from loadEntries_keys [OF this, of "[]"] assms(2) show ?thesis
    by (simp add: keys_def)
qed

lemma length_statementsOf:
  "length (statementsOf cs)
     = sum_list (map (\<lambda>(i, c). case permissions c of None \<Rightarrow> 0 | Some ps \<Rightarrow> length ps) cs)"
  by (induction cs) (auto simp: statementsOf_def split: option.splits)

lemma appendPermissions_appends:
  assumes "constructs p = Some cs" and "service_provider p = Some (Obj fs)"
    and "lookup fs ''iamRoleStatements'' = None \<or> lookup fs ''iamRoleStatements'' = Some Null
         \<or> (\<exists>xs. lookup fs ''iamRoleStatements'' = Some (Arr xs))"
  shows "fst (appendPermissions p) = None"
    and "iamRoleStatements (snd (appendPermissions p)) = iamRoleStatements p @ statementsOf cs"
  using assms
  by (auto simp: appendPermissions_def getConstructs_def Let_def iamRoleStatements_def
      lookup_assign)


text \<open>
  C7. After instantiation, with \<open>iamRoleStatements\<close> absent, null or an array on the
  provider section, \<open>appendPermissions\<close> does not throw and the role's statement list
  afterwards is the list that was there before followed by the statements of every
  construct, flattened in the order of the constructs mapping (nothing for a construct
  without \<open>permissions\<close>): as many as the sum of the \<open>k_i\<close>. That order is the declaration
  order whenever the mapping comes from a \<open>loadConstructs\<close> that returned.
\<close>

theorem permissions_appended:
  assumes "constructs p = Some cs" and "service_provider p = Some (Obj fs)"
    and "lookup fs ''iamRoleStatements'' = None \<or> lookup fs ''iamRoleStatements'' = Some Null
         \<or> (\<exists>xs. lookup fs ''iamRoleStatements'' = Some (Arr xs))"
  shows "fst (appendPermissions p) = None
     \<and> iamRoleStatements (snd (appendPermissions p))
         = iamRoleStatements p
           @ concat (map (\<lambda>(i, c). case permissions c of None \<Rightarrow> [] | Some ps \<Rightarrow> ps) cs)
     \<and> length (concat (map (\<lambda>(i, c). case permissions c of None \<Rightarrow> [] | Some ps \<Rightarrow> ps) cs))
         = sum_list (map (\<lambda>(i, c). case permissions c of None \<Rightarrow> 0 | Some ps \<Rightarrow> length ps) cs)
     \<and> (\<forall>p0. constructs p0 = None \<and> distinct (map fst (declarations p0))
            \<and> loadConstructs p0 = (None, p)
          \<longrightarrow> keys cs = map fst (declarations p0))"
proof (intro conjI allI impI)
  show "fst (appendPermissions p) = None"
    using assms by (rule appendPermissions_appends(1))
  show "iamRoleStatements (snd (appendPermissions p))
         = iamRoleStatements p
           @ concat (map (\<lambda>(i, c). case permissions c of None \<Rightarrow> [] | Some ps \<Rightarrow> ps) cs)"
    using appendPermissions_appends(2) [OF assms] by (simp add: statementsOf_def)
  show "length (concat (map (\<lambda>(i, c). case permissions c of None \<Rightarrow> [] | Some ps \<Rightarrow> ps) cs))
         = sum_list (map (\<lambda>(i, c). case permissions c of None \<Rightarrow> 0 | Some ps \<Rightarrow> length ps) cs)"
    using length_statementsOf [of cs] by (simp add: statementsOf_def)
next
  fix p0
  assume "constructs p0 = None \<and> distinct (map fst (declarations p0))
      \<and> loadConstructs p0 = (None, p)"
  then show "keys cs = map fst (declarations p0)"
    using loadConstructs_keys [of p0 p] assms(1) by auto
qed

theorem permissions_appended_witness:
  "fst (appendPermissions withRole) = None
   \<and> iamRoleStatements (snd (appendPermissions withRole))
       = Obj [(''Effect'', Str ''Allow''), (''Action'', Str ''sqs:SendMessage''),
              (''Resource'', Str ''*'')]
         # the (permissions (create storage ''app-dev'' ''avatars'' (Obj [(''type'', Str ''storage'')])))
   \<and> length (iamRoleStatements (snd (appendPermissions withRole))) = 2"
proof -
  have c: "constructs withRole = Some [(''avatars'',
      create storage ''app-dev'' ''avatars'' (Obj [(''type'', Str ''storage'')]))]"
    by (simp add: withRole_def deployed_constructs)
  have s: "service_provider withRole = Some (Obj [(''name'', Str ''aws''),
       (''iamRoleStatements'', Arr [Obj [(''Effect'', Str ''Allow''),
          (''Action'', Str ''sqs:SendMessage''), (''Resource'', Str ''*'')]])])"
    by (simp add: withRole_def)
  have l: "lookup [(''name'', Str ''aws''),
       (''iamRoleStatements'', Arr [Obj [(''Effect'', Str ''Allow''),
          (''Action'', Str ''sqs:SendMessage''), (''Resource'', Str ''*'')]])] ''iamRoleStatements''
      = Some (Arr [Obj [(''Effect'', Str ''Allow''),
          (''Action'', Str ''sqs:SendMessage''), (''Resource'', Str ''*'')]])"
    by simp
  have i: "iamRoleStatements withRole = [Obj [(''Effect'', Str ''Allow''),
          (''Action'', Str ''sqs:SendMessage''), (''Resource'', Str ''*'')]]"
    by (simp add: iamRoleStatements_def s)
  have "fst (appendPermissions withRole) = None
     \<and> iamRoleStatements (snd (appendPermissions withRole))
       = Obj [(''Effect'', Str ''Allow''), (''Action'', Str ''sqs:SendMessage''),
              (''Resource'', Str ''*'')]
         # the (permissions (create storage ''app-dev'' ''avatars'' (Obj [(''type'', Str ''storage'')])))"
    using permissions_appended [OF c s] l by (simp add: i storage_def)
  then show ?thesis by (simp add: storage_def)
qed

subsection \<open>Order of the phases\<close>

lemma runPhases_append:
  "runPhases fuel (xs @ ys) p =
     (case runPhases fuel xs p of
        (tr, Some e, p') \<Rightarrow> (tr, Some e, p')
      | (tr, None, p') \<Rightarrow>
          (case runPhases fuel ys p' of (tr', r, p'') \<Rightarrow> (tr @ tr', r, p'')))"
  by (induction xs arbitrary: p) (auto split: prod.splits option.splits)

lemma appendPermissions_constructs:
  "constructs (snd (appendPermissions p)) = constructs p"
  by (simp add: appendPermissions_def Let_def
      split: sum.splits option.splits val.splits)

lemma resolveLazyVariables_constructs:
  "constructs (snd (resolveLazyVariables fuel p)) = constructs p"
  by (simp add: resolveLazyVariables_def Let_def split: sum.splits)

lemma runPhase_initialized:
  "constructs p \<noteq> None \<Longrightarrow> constructs (snd (runPhase fuel ph p)) \<noteq> None"
  by (cases ph)
    (simp_all add: loadConstructs_initialized appendPermissions_constructs
      resolveLazyVariables_constructs appendCloudformationResources_def Let_def
      split: sum.splits)

lemma runPhases_initialized:
  "constructs p \<noteq> None \<Longrightarrow> constructs (snd (snd (runPhases fuel phs p))) \<noteq> None"
proof (induction phs arbitrary: p)
  case Nil
  then show ?case by simp
next
  case (Cons ph phs)
  from runPhase_initialized [OF Cons.prems, of fuel ph]
  show ?case
    using Cons.IH [of "snd (runPhase fuel ph p)"]
    by (auto split: prod.splits option.splits)
qed

lemma initialize_again:
  assumes "constructs p \<noteq> None"
  shows "runPhases fuel (hooks ''initialize'') p
     = ([LoadConstructs],
        Some (Error ''Constructs are already initialized: this should not happen''), p)"
  using assms by (simp add: hooks_def loadConstructs_def)

lemma hooks_cases:
  "hooks name = [LoadConstructs, AppendPermissions, ResolveLazyVariables] \<and> name = ''initialize''
   \<or> hooks name \<in> {[Info], [AppendCloudformationResources], [PostDeploy], [PreRemove], [Eject], []}"
  by (simp add: hooks_def)

lemma runPhases_single:
  "fst (runPhases fuel [ph] p) = [ph]"
  by (simp split: prod.splits option.splits)

lemma run_Cons:
  "run fuel (name # names) p =
     (case runPhases fuel (hooks name) p of
        (tr, Some e, p') \<Rightarrow> (tr, Some e, p')
      | (tr, None, p') \<Rightarrow>
          (case run fuel names p' of (tr', r, p'') \<Rightarrow> (tr @ tr', r, p'')))"
  by (simp add: run_def runPhases_append split: prod.splits option.splits)

lemma run_initialized:
  assumes "constructs p \<noteq> None"
  shows "AppendPermissions \<notin> set (fst (run fuel names p))
     \<and> ResolveLazyVariables \<notin> set (fst (run fuel names p))"
  using assms
proof (induction names arbitrary: p)
  case Nil
  then show ?case by (simp add: run_def)
next
  case (Cons name names)
  obtain tr r p' where h: "runPhases fuel (hooks name) p = (tr, r, p')"
    by (cases "runPhases fuel (hooks name) p") auto
  have p': "constructs p' \<noteq> None"
    using runPhases_initialized [OF Cons.prems, of fuel "hooks name"] h by simp
  have tr: "AppendPermissions \<notin> set tr \<and> ResolveLazyVariables \<notin> set tr"
  proof (cases "name = ''initialize''")
    case True
    then have "tr = [LoadConstructs]"
      using initialize_again [OF Cons.prems, of fuel] h by simp
    then show ?thesis by simp
  next
    case False
    with hooks_cases [of name] consider "hooks name = []" | ph where "hooks name = [ph]"
      "ph \<noteq> AppendPermissions" "ph \<noteq> ResolveLazyVariables"
      by auto
    then show ?thesis
    proof cases
      case 1
      then show ?thesis using h by simp
    next
      case 2
      then show ?thesis using h runPhases_single [of fuel ph p] by auto
    qed
  qed
  show ?case
  proof (cases r)
    case None
    then show ?thesis
      using h tr Cons.IH [OF p'] by (auto simp: run_Cons split: prod.splits)
  next
    case (Some e)
    then show ?thesis using h tr by (simp add: run_Cons)
  qed
qed


lemma example_run:
  "fst (run 1 [''initialize'', ''after:package:compileEvents''] example)
     = [LoadConstructs, AppendPermissions, ResolveLazyVariables, AppendCloudformationResources]"
  "fst (snd (run 1 [''initialize'', ''after:package:compileEvents''] example)) = None"
  by code_simp+

text \<open>
  C2. Take any run in which the host fires \<open>initialize\<close> first and any hooks after it, and
  let \<open>tr\<close> be the phases the run started. Either the run was aborted inside
  \<open>initialize\<close>, after starting construct instantiation or after starting permission
  aggregation, and nothing else ran; or \<open>tr\<close> begins with construct instantiation, then
  permission aggregation, then forced resolution, and neither of the latter two ever starts
  again. So forced resolution comes strictly after instantiation and aggregation, and every
  emission of the template (\<open>AppendCloudformationResources\<close>) comes strictly after it.
\<close>

theorem initialize_order:
  assumes "run fuel (''initialize'' # names) p = (tr, r, p')"
  shows "(r \<noteq> None \<and> (tr = [LoadConstructs] \<or> tr = [LoadConstructs, AppendPermissions]))
     \<or> (\<exists>rest. tr = [LoadConstructs, AppendPermissions, ResolveLazyVariables] @ rest
           \<and> AppendPermissions \<notin> set rest \<and> ResolveLazyVariables \<notin> set rest)"
proof -
  obtain r1 p1 where l: "loadConstructs p = (r1, p1)" by (cases "loadConstructs p") auto
  obtain r2 p2 where a: "appendPermissions p1 = (r2, p2)" by (cases "appendPermissions p1") auto
  obtain r3 p3 where v: "resolveLazyVariables fuel p2 = (r3, p3)"
    by (cases "resolveLazyVariables fuel p2") auto
  have i1: "constructs p1 \<noteq> None"
    using loadConstructs_initialized [of p] l by simp
  have i2: "constructs p2 \<noteq> None"
    using appendPermissions_constructs [of p1] a i1 by simp
  have i3: "constructs p3 \<noteq> None"
    using resolveLazyVariables_constructs [of fuel p2] v i2 by simp
  show ?thesis
  proof (cases "r1 = None \<and> r2 = None \<and> r3 = None")
    case True
    then have "runPhases fuel (hooks ''initialize'') p
        = ([LoadConstructs, AppendPermissions, ResolveLazyVariables], None, p3)"
      using l a v by (simp add: hooks_def)
    then have "tr = [LoadConstructs, AppendPermissions, ResolveLazyVariables]
        @ fst (run fuel names p3)"
      using assms by (auto simp: run_Cons split: prod.splits)
    then show ?thesis using run_initialized [OF i3, of fuel names] by blast
  next
    case False
    then have "runPhases fuel (hooks ''initialize'') p = (tr, r, p') \<and> r \<noteq> None
        \<and> (tr = [LoadConstructs] \<or> tr = [LoadConstructs, AppendPermissions]
           \<or> tr = [LoadConstructs, AppendPermissions, ResolveLazyVariables])"
      using l a v assms by (auto simp: run_Cons hooks_def split: prod.splits option.splits)
    then show ?thesis by auto
  qed
qed


theorem initialize_order_witness:
  "(\<exists>rest. fst (run 1 [''initialize'', ''after:package:compileEvents''] example)
        = [LoadConstructs, AppendPermissions, ResolveLazyVariables] @ rest
      \<and> AppendPermissions \<notin> set rest \<and> ResolveLazyVariables \<notin> set rest)
   \<and> fst (run 1 [''initialize'', ''after:package:compileEvents''] example)
       = [LoadConstructs, AppendPermissions, ResolveLazyVariables, AppendCloudformationResources]
   \<and> fst (snd (run 1 [''initialize'', ''after:package:compileEvents''] example)) = None"
  using initialize_order [of 1 "[''after:package:compileEvents'']" example
      "fst (run 1 [''initialize'', ''after:package:compileEvents''] example)"
      "fst (snd (run 1 [''initialize'', ''after:package:compileEvents''] example))"
      "snd (snd (run 1 [''initialize'', ''after:package:compileEvents''] example))"]
    example_run
  by simp

subsection \<open>Unknown construct types\<close>

text \<open>
  C6. \<open>getConstructClass\<close> never fails with the host's configuration-error class: asked
  for the unregistered type \<open>database\<close> it throws a plain \<open>Error\<close>, whose message names the
  type.
\<close>

theorem getConstructClass_plain_error:
  "getConstructClass p t \<noteq> Inl (ServerlessError msg)
   \<and> getConstructClass example ''database'' = Inl (Error ''Unknown construct type database'')"
proof
  show "getConstructClass p t \<noteq> Inl (ServerlessError msg)"
    by (simp add: getConstructClass_def split: option.splits)
  show "getConstructClass example ''database'' = Inl (Error ''Unknown construct type database'')"
    by (simp add: getConstructClass_def getAllConstructClasses_def example_def storage_def)
qed

end
